theory Spec2Isabelle
  imports Complex_Main "HOL-Library.Word" "HOL-Library.Multiset" "HOL-Library.Sublist"
begin

section \<open>JavaScript strings, numbers and errors\<close>

text \<open>
  A JavaScript string is a sequence of UTF-16 code units, and \<open>length\<close>, \<open>repeat\<close>,
  \<open>slice\<close> and the regular expressions of the scripts (none has the \<open>u\<close> flag) count
  and match code units. A string is therefore a list of 16-bit words; \<open>ascii\<close> embeds
  an ASCII literal. Characters outside ASCII are written as their code units.
\<close>

type_synonym jsstring = "16 word list"

definition ascii :: "string \<Rightarrow> jsstring" where
  "ascii s = map of_char s"

text \<open>The exceptions the modelled code can raise.\<close>

datatype js_error = RangeError | TypeError | URIError | ENOENT

text \<open>
  \<open>String.prototype.repeat(count)\<close>: a negative count throws a RangeError, otherwise the
  string is concatenated \<open>count\<close> times. The count is an integer here (star ratings are
  integers in the data model).
\<close>

definition js_repeat :: "jsstring \<Rightarrow> int \<Rightarrow> js_error + jsstring" where
  "js_repeat s n = (if n < 0 then Inl RangeError else Inr (concat (replicate (nat n) s)))"

text \<open>
  The string of an integer Number, as a template literal and \<open>replace\<close> produce it:
  decimal digits, with a minus sign below zero (the integers of the data are far below
  \<open>10^21\<close>, where JavaScript switches to exponent notation).
\<close>

fun js_nat_str :: "nat \<Rightarrow> jsstring" where
  "js_nat_str n =
     (if n < 10 then [of_nat (48 + n)] else js_nat_str (n div 10) @ [of_nat (48 + n mod 10)])"

definition js_int_str :: "int \<Rightarrow> jsstring" where
  "js_int_str i = (if i < 0 then ascii ''-'' @ js_nat_str (nat (- i)) else js_nat_str (nat i))"

definition js_bool_str :: "bool \<Rightarrow> jsstring" where
  "js_bool_str b = (if b then ascii ''true'' else ascii ''false'')"

text \<open>
  \<open>a || b\<close> on a string field that may be missing: the empty string is falsy, as
  \<open>undefined\<close> and \<open>null\<close> are.
\<close>

definition js_or_str :: "jsstring option \<Rightarrow> jsstring \<Rightarrow> jsstring" where
  "js_or_str a b = (case a of None \<Rightarrow> b | Some s \<Rightarrow> if s = [] then b else s)"





section \<open>JavaScript numbers\<close>

text \<open>
  A Number is an IEEE 754 double. The integers of the data (prices, ratings, counts) are
  doubles as they stand, and comparing and subtracting them is exact, so they are
  \<open>int\<close> in the model. Where the scripts multiply by a decimal literal or divide, the
  result is rounded to a double: a finite double is represented by its exact rational
  value, and \<open>round_double\<close> rounds a rational to the nearest number with a 53-bit
  significand, ties to the even significand. The exponent range is not modelled
  (no overflow to Infinity, no subnormal numbers): the values of these scripts are far
  inside it.
\<close>

text \<open>The number of binary digits of a positive integer.\<close>

function bitlen :: "int \<Rightarrow> int" where
  "bitlen n = (if n \<le> 0 then 0 else 1 + bitlen (n div 2))"
  by pat_completeness auto
termination
  by (relation "measure nat") auto

declare bitlen.simps [simp del]

text \<open>\<open>ilog2 x\<close> is the exponent \<open>e\<close> with \<open>2^e \<le> x < 2^(e+1)\<close>, for positive \<open>x\<close>.\<close>

definition ilog2 :: "rat \<Rightarrow> int" where
  "ilog2 x = (if 1 \<le> x then bitlen \<lfloor>x\<rfloor> - 1 else - bitlen (\<lceil>1 / x\<rceil> - 1))"

definition round_ties_even :: "rat \<Rightarrow> int" where
  "round_ties_even x =
     (let f = \<lfloor>x\<rfloor>; r = x - of_int f
      in if r < 1 / 2 then f else if 1 / 2 < r then f + 1 else if even f then f else f + 1)"

definition round_double :: "rat \<Rightarrow> rat" where
  "round_double x =
     (if x = 0 then 0
      else let e = ilog2 \<bar>x\<bar> - 52
           in sgn x * of_int (round_ties_even (\<bar>x\<bar> / 2 powi e)) * 2 powi e)"

text \<open>
  The Number of an integer of the data (\<open>JSON.parse\<close> of an integer literal, or the
  length of an array), and the arithmetic operators. A division by zero gives Infinity
  or NaN, which is \<open>None\<close>: \<open>Math.round\<close> returns such a value as it is, and
  \<open>JSON.stringify\<close> writes it as \<open>null\<close>.
\<close>

definition js_num :: "int \<Rightarrow> rat" where
  "js_num i = round_double (of_int i)"

definition js_add :: "rat \<Rightarrow> rat \<Rightarrow> rat" where
  "js_add a b = round_double (a + b)"

definition js_mul :: "rat \<Rightarrow> rat \<Rightarrow> rat" where
  "js_mul a b = round_double (a * b)"

definition js_div :: "rat \<Rightarrow> rat \<Rightarrow> rat option" where
  "js_div a b = (if b = 0 then None else Some (round_double (a / b)))"

text \<open>
  \<open>Math.round(x)\<close>: the integer closest to \<open>x\<close>, the larger one when two are equally
  close. It is computed on the exact value of the double.
\<close>

definition Math_round :: "rat \<Rightarrow> int" where
  "Math_round x = \<lfloor>x + 1 / 2\<rfloor>"

section \<open>String operations\<close>

text \<open>
  The code units that \<open>\s\<close> matches in a regular expression and that \<open>trim\<close> strips:
  tab, line feed, vertical tab, form feed, carriage return, space, no-break space,
  U+1680, U+2000 to U+200A, the line and paragraph separators, U+202F, U+205F, U+3000
  and the byte order mark.
\<close>

definition js_whitespace :: "16 word \<Rightarrow> bool" where
  "js_whitespace c \<longleftrightarrow>
     c \<in> set [0x09, 0x0A, 0x0B, 0x0C, 0x0D, 0x20, 0xA0, 0x1680, 0x2028, 0x2029, 0x202F,
              0x205F, 0x3000, 0xFEFF] \<or> (0x2000 \<le> c \<and> c \<le> 0x200A)"

definition trim :: "jsstring \<Rightarrow> jsstring" where
  "trim s = rev (dropWhile js_whitespace (rev (dropWhile js_whitespace s)))"

text \<open>
  \<open>s.replace(/[...]+/g, r)\<close> for a character class: every maximal run of code units of
  the class is replaced by \<open>r\<close>.
\<close>

function replace_runs :: "(16 word \<Rightarrow> bool) \<Rightarrow> jsstring \<Rightarrow> jsstring \<Rightarrow> jsstring" where
  "replace_runs cls r [] = []"
| "replace_runs cls r (c # cs) =
     (if cls c then r @ replace_runs cls r (dropWhile cls cs) else c # replace_runs cls r cs)"
  by pat_completeness auto
termination
  by (relation "measure (\<lambda>(cls, r, s). length s)")
    (auto simp: less_Suc_eq_le length_dropWhile_le)

text \<open>
  \<open>GetSubstitution\<close> of ECMAScript, for a match without capture groups: in the
  replacement text \<open>$$\<close> stands for a dollar sign, \<open>$&\<close> for the matched text, \<open>$`\<close> for
  the text before the match and \<open>$'\<close> for the text after it; any other dollar sign is
  kept (there is no group that \<open>$1\<close> could name).
\<close>

fun get_substitution :: "jsstring \<Rightarrow> jsstring \<Rightarrow> jsstring \<Rightarrow> jsstring \<Rightarrow> jsstring" where
  "get_substitution matched pre post [] = []"
| "get_substitution matched pre post [c] = [c]"
| "get_substitution matched pre post (c # d # cs) =
     (if c = 0x24 \<and> d = 0x24 then 0x24 # get_substitution matched pre post cs
      else if c = 0x24 \<and> d = 0x26 then matched @ get_substitution matched pre post cs
      else if c = 0x24 \<and> d = 0x60 then pre @ get_substitution matched pre post cs
      else if c = 0x24 \<and> d = 0x27 then post @ get_substitution matched pre post cs
      else c # get_substitution matched pre post (d # cs))"

text \<open>
  \<open>s.replace(pattern, replacement)\<close> with a string pattern: the first occurrence is
  replaced (the empty pattern occurs at the start), and a string without the pattern is
  returned as it is. \<open>pre\<close> is the text already passed.
\<close>

fun js_replace_from :: "jsstring \<Rightarrow> jsstring \<Rightarrow> jsstring \<Rightarrow> jsstring \<Rightarrow> jsstring" where
  "js_replace_from pat repl pre [] =
     (if pat = [] then pre @ get_substitution pat pre [] repl else pre)"
| "js_replace_from pat repl pre (c # cs) =
     (if prefix pat (c # cs)
      then pre @ get_substitution pat pre (drop (length pat) (c # cs)) repl
             @ drop (length pat) (c # cs)
      else js_replace_from pat repl (pre @ [c]) cs)"

definition js_replace :: "jsstring \<Rightarrow> jsstring \<Rightarrow> jsstring \<Rightarrow> jsstring" where
  "js_replace pat repl s = js_replace_from pat repl [] s"

text \<open>
  \<open>s.replace(/pattern/g, replacement)\<close> where the regular expression is a literal text,
  as every global pattern of \<open>generate.js\<close> is (a placeholder between escaped braces):
  all occurrences are replaced, found from left to right without overlap. \<open>$`\<close> and \<open>$'\<close>
  refer to the original string.
\<close>

function js_replace_all_from ::
  "jsstring \<Rightarrow> jsstring \<Rightarrow> jsstring \<Rightarrow> jsstring \<Rightarrow> jsstring" where
  "js_replace_all_from pat repl pre [] = []"
| "js_replace_all_from pat repl pre (c # cs) =
     (if pat \<noteq> [] \<and> prefix pat (c # cs)
      then get_substitution pat pre (drop (length pat) (c # cs)) repl
             @ js_replace_all_from pat repl (pre @ pat) (drop (length pat) (c # cs))
      else c # js_replace_all_from pat repl (pre @ [c]) cs)"
  by pat_completeness auto
termination
  by (relation "measure (\<lambda>(pat, repl, pre, s). length s)") (auto simp: neq_Nil_conv)

definition js_replace_all :: "jsstring \<Rightarrow> jsstring \<Rightarrow> jsstring \<Rightarrow> jsstring" where
  "js_replace_all pat repl s = js_replace_all_from pat repl [] s"


section \<open>The data model\<close>

text \<open>
  The records of \<open>data/all-hotels.json\<close> and \<open>data/neighborhoods.json\<close>, with the
  fields the scripts read. A field the code guards with \<open>||\<close> may be missing and is an
  option.
\<close>

record hotel =
  hotel_id :: jsstring
  slug :: jsstring
  name :: jsstring
  neighborhood :: jsstring
  neighborhoodName :: "jsstring option"
  starRating :: int
  pricePerNight :: int
  hasAcropolisView :: bool
  hasRooftopBar :: bool
  rooftopRating :: "int option"
  amenities :: "jsstring list option"
  pros :: "jsstring list option"
  cons :: "jsstring list option"
  bestFor :: "jsstring list option"
  overview :: "jsstring option"
  distanceToAcropolis :: jsstring

record neighborhood_rec =
  hood_id :: jsstring
  hood_name :: jsstring
  emoji :: jsstring
  tagline :: jsstring
  description :: jsstring
  hood_avgPrice :: int
  walkToAcropolis :: jsstring
  vibe :: "jsstring list"
  hood_bestFor :: "jsstring list"

text \<open>
  The documents that the data build writes and the generator reads: one per
  neighborhood (\<open>data/hotels/<id>.json\<close>: the neighborhood, \<open>hotelCount\<close> and \<open>hotels\<close>)
  and the master file \<open>data/all-hotels.json\<close> (\<open>lastUpdated\<close> and \<open>currency\<close> are
  written too and never read).
\<close>

record neighborhood_data =
  nd_hood :: neighborhood_rec
  hotelCount :: int
  nd_hotels :: "hotel list"

record price_stats =
  budget_count :: int
  midRange_count :: int
  upscale_count :: int
  luxury_count :: int

record master_data =
  totalHotels :: int
  avgPrice :: "int option"
  priceStats :: price_stats
  hotels :: "hotel list"

section \<open>Renderer helpers of \<open>scripts/generate.js\<close>\<close>

text \<open>The two star glyphs, U+2605 (black star) and U+2606 (white star): one code unit each.\<close>

definition filled_star :: "16 word" where "filled_star = 0x2605"
definition empty_star :: "16 word" where "empty_star = 0x2606"

text \<open>
  \<^verbatim>\<open>function generateStars(rating) { return FILLED.repeat(rating) + EMPTY.repeat(5 - rating); }\<close>
  The left operand is evaluated first, so its RangeError wins.
\<close>

definition generateStars :: "int \<Rightarrow> js_error + jsstring" where
  "generateStars rating =
     (case js_repeat [filled_star] rating of
        Inl e \<Rightarrow> Inl e
      | Inr a \<Rightarrow> (case js_repeat [empty_star] (5 - rating) of
                   Inl e \<Rightarrow> Inl e
                 | Inr b \<Rightarrow> Inr (a @ b)))"

text \<open>
  \<^verbatim>\<open>function getPriceTier(price) {
    if (price < 80) return 'budget';
    if (price < 150) return 'mid';
    if (price < 250) return 'upscale';
    return 'luxury'; }\<close>
\<close>

definition getPriceTier :: "int \<Rightarrow> jsstring" where
  "getPriceTier price =
     (if price < 80 then ascii ''budget''
      else if price < 150 then ascii ''mid''
      else if price < 250 then ascii ''upscale''
      else ascii ''luxury'')"

text \<open>The two badges of a hotel card (\<open>generateHotelCard\<close>, the two \<open>badges.push\<close>).\<close>

definition card_view_badge :: jsstring where
  \<open>card_view_badge =
     concat
       [ascii ''<span class="badge badge-view">'',
        [0xD83C, 0xDFDB, 0xFE0F],
        ascii '' Acropolis View</span>'']\<close>

definition card_rooftop_badge :: jsstring where
  \<open>card_rooftop_badge =
     concat
       [ascii ''<span class="badge badge-rooftop">'',
        [0xD83C, 0xDF78],
        ascii '' Rooftop Bar</span>'']\<close>

definition card_badges :: "hotel \<Rightarrow> jsstring list" where
  "card_badges hotel =
     (if hasAcropolisView hotel then [card_view_badge] else []) @
     (if hasRooftopBar hotel then [card_rooftop_badge] else [])"

text \<open>
  \<open>generateHotelCard(hotel)\<close>: the template literal, its expressions evaluated from left
  to right. Only \<open>generateStars\<close> can throw.
\<close>

definition generateHotelCard :: "hotel \<Rightarrow> js_error + jsstring" where
  \<open>generateHotelCard hotel =
     (case generateStars (starRating hotel) of
        Inl e \<Rightarrow> Inl e
      | Inr stars \<Rightarrow>
          Inr (concat
            [ascii ''\<newline>'',
             ascii ''    <a href="/hotel/'',
             slug hotel,
             ascii ''" class="hotel-card" data-tier="'',
             getPriceTier (pricePerNight hotel),
             ascii ''" data-view="'',
             js_bool_str (hasAcropolisView hotel),
             ascii ''">\<newline>'',
             ascii ''      <div class="hotel-card-image">'',
             [0xD83C, 0xDFE8],
             ascii ''</div>\<newline>'',
             ascii ''      <div class="hotel-card-content">\<newline>'',
             ascii ''        <h3>'',
             name hotel,
             ascii ''</h3>\<newline>'',
             ascii ''        <div class="hotel-card-meta">\<newline>'',
             ascii ''          <span>'',
             stars,
             ascii ''</span>\<newline>'',
             ascii ''          <span>'',
             [0x2022],
             ascii ''</span>\<newline>'',
             ascii ''          <span>'',
             js_or_str (neighborhoodName hotel) (neighborhood hotel),
             ascii ''</span>\<newline>'',
             ascii ''        </div>\<newline>'',
             ascii ''        <div class="hotel-card-badges">'',
             concat (card_badges hotel),
             ascii ''</div>\<newline>'',
             ascii ''        <div class="hotel-card-price">\<newline>'',
             ascii ''          <span class="from">from</span>\<newline>'',
             ascii ''          <span class="price">'',
             [0x20AC],
             js_int_str (pricePerNight hotel),
             ascii ''</span>\<newline>'',
             ascii ''          <span class="per">/night</span>\<newline>'',
             ascii ''        </div>\<newline>'',
             ascii ''      </div>\<newline>'',
             ascii ''    </a>\<newline>'',
             ascii ''  '']))\<close>


section \<open>Selections of the page builders\<close>






text \<open>
  \<open>generateHotelPages\<close>: the badges of a hotel's own page (the three \<open>badges.push\<close>).
\<close>

definition page_view_badge :: jsstring where
  \<open>page_view_badge =
     concat
       [ascii ''<span class="hotel-badge">'',
        [0xD83C, 0xDFDB, 0xFE0F],
        ascii '' Acropolis View</span>'']\<close>

definition page_rooftop_badge :: jsstring where
  \<open>page_rooftop_badge =
     concat
       [ascii ''<span class="hotel-badge">'',
        [0xD83C, 0xDF78],
        ascii '' Rooftop Bar</span>'']\<close>

definition page_luxury_badge :: jsstring where
  \<open>page_luxury_badge =
     concat
       [ascii ''<span class="hotel-badge">'',
        [0xD83D, 0xDC51],
        ascii '' Luxury</span>'']\<close>

definition page_badges :: "hotel \<Rightarrow> jsstring list" where
  "page_badges hotel =
     (if hasAcropolisView hotel then [page_view_badge] else []) @
     (if hasRooftopBar hotel then [page_rooftop_badge] else []) @
     (if 5 \<le> starRating hotel then [page_luxury_badge] else [])"

section \<open>The price range of a hotel page\<close>

text \<open>
  \<open>generateHotelPages\<close>: the two ends of the displayed price range.
  \<^verbatim>\<open>Math.round(hotel.pricePerNight * 0.8)\<close> and \<^verbatim>\<open>Math.round(hotel.pricePerNight * 1.5)\<close>
  The literals \<open>0.8\<close> and \<open>1.5\<close> are the doubles nearest to them, and each product is
  rounded to a double.
\<close>

definition page_price_min :: "int \<Rightarrow> int" where
  "page_price_min price = Math_round (js_mul (js_num price) (round_double (8 / 10)))"

definition page_price_max :: "int \<Rightarrow> int" where
  "page_price_max price = Math_round (js_mul (js_num price) (round_double (15 / 10)))"

section \<open>The page builders of \<open>scripts/generate.js\<close>\<close>

text \<open>
  What the script loads when it starts: the six templates, \<open>data/all-hotels.json\<close>,
  \<open>data/neighborhoods.json\<close>; what it reads while it runs: the file
  \<open>data/hotels/<id>.json\<close> of each neighborhood (\<open>None\<close> when the file is missing or is
  not JSON: \<open>readFileSync\<close> or \<open>JSON.parse\<close> throws) and the environment variable
  \<open>FORMSPREE_ID\<close>. \<open>toLowerCase\<close> is the case mapping of the JavaScript engine (the
  Unicode tables), which the FAQ texts of the neighborhood pages go through.
\<close>

record templates =
  layoutTemplate :: jsstring
  homeTemplate :: jsstring
  neighborhoodTemplate :: jsstring
  hotelTemplate :: jsstring
  contactTemplate :: jsstring
  thankYouTemplate :: jsstring

record site_input =
  tpl :: templates
  allHotelsData :: master_data
  neighborhoodsData :: "neighborhood_rec list"
  hoodFiles :: "jsstring \<Rightarrow> neighborhood_data option"
  env_FORMSPREE_ID :: "jsstring option"
  toLowerCase :: "jsstring \<Rightarrow> jsstring"

text \<open>
  The output directory \<open>dist\<close>: the content of each file, by its path below \<open>dist\<close>.
  \<open>writeFileSync\<close> creates or replaces a file. Identifiers and slugs are URL-safe in the
  data model, so \<open>path.join\<close> only puts the separators in.
\<close>

type_synonym files = "jsstring \<rightharpoonup> jsstring"

definition writeFileSync :: "jsstring \<Rightarrow> jsstring \<Rightarrow> files \<Rightarrow> files" where
  "writeFileSync path content fs = fs(path \<mapsto> content)"

text \<open>
  A step of the run takes the files and returns them with the exception that ended it,
  if any. \<open>write_page\<close> writes a page whose text was computed, or passes on the exception
  that its computation threw; \<open>run_all\<close> runs steps in order up to the first exception
  (a sequence of statements, or the body of a \<open>for\<close> loop for each element).
\<close>

type_synonym step = "files \<Rightarrow> js_error option \<times> files"

definition write_page :: "jsstring \<Rightarrow> js_error + jsstring \<Rightarrow> step" where
  "write_page path html fs =
     (case html of Inl e \<Rightarrow> (Some e, fs) | Inr page \<Rightarrow> (None, writeFileSync path page fs))"

fun run_all :: "step list \<Rightarrow> step" where
  "run_all [] fs = (None, fs)"
| "run_all (g # gs) fs =
     (case g fs of (Some e, fs') \<Rightarrow> (Some e, fs') | (None, fs') \<Rightarrow> run_all gs fs')"

text \<open>A chain of method calls \<open>s.f(..).g(..)\<close>, applied from left to right.\<close>

definition chain :: "'a \<Rightarrow> ('a \<Rightarrow> 'a) list \<Rightarrow> 'a" where
  "chain s fs = foldl (\<lambda>x f. f x) s fs"

text \<open>\<open>xs.map(f)\<close> where \<open>f\<close> may throw: the first exception ends the map.\<close>

fun map_result :: "('a \<Rightarrow> js_error + 'b) \<Rightarrow> 'a list \<Rightarrow> js_error + 'b list" where
  "map_result f [] = Inr []"
| "map_result f (x # xs) =
     (case f x of
        Inl e \<Rightarrow> Inl e
      | Inr y \<Rightarrow> (case map_result f xs of Inl e \<Rightarrow> Inl e | Inr ys \<Rightarrow> Inr (y # ys)))"

text \<open>
  A value that may be an exception, and the computation that goes on with it: the
  exception ends the computation.
\<close>

definition result_bind :: "js_error + 'a \<Rightarrow> ('a \<Rightarrow> js_error + 'b) \<Rightarrow> js_error + 'b" where
  "result_bind r f = (case r of Inl e \<Rightarrow> Inl e | Inr x \<Rightarrow> f x)"

text \<open>\<open>hotels.map(generateHotelCard).join('')\<close>.\<close>

definition hotel_cards :: "hotel list \<Rightarrow> js_error + jsstring" where
  "hotel_cards hs =
     (case map_result generateHotelCard hs of Inl e \<Rightarrow> Inl e | Inr cs \<Rightarrow> Inr (concat cs))"

text \<open>
  The string of a field in a template literal or as a replacement: a missing string is
  \<open>undefined\<close>; \<open>avgPrice\<close> is \<open>null\<close> in the master file when it was not finite.
\<close>

definition js_str_or_undefined :: "jsstring option \<Rightarrow> jsstring" where
  "js_str_or_undefined a = (case a of None \<Rightarrow> ascii ''undefined'' | Some s \<Rightarrow> s)"


text \<open>
  \<open>encodeURIComponent\<close>: the characters \<open>A-Z a-z 0-9 - _ . ! ~ * ' ( )\<close> are kept; any
  other character is written as the bytes of its UTF-8 encoding, each as \<open>%\<close> and two
  upper-case hexadecimal digits. A surrogate code unit without its partner throws a
  URIError.
\<close>

definition uri_unreserved :: "16 word \<Rightarrow> bool" where
  "uri_unreserved c \<longleftrightarrow>
     (0x41 \<le> c \<and> c \<le> 0x5A) \<or> (0x61 \<le> c \<and> c \<le> 0x7A) \<or> (0x30 \<le> c \<and> c \<le> 0x39)
     \<or> c \<in> set (ascii ''-_.!~*()'') \<or> c = 0x27"

definition utf8_bytes :: "nat \<Rightarrow> nat list" where
  "utf8_bytes cp =
     (if cp < 0x80 then [cp]
      else if cp < 0x800 then [0xC0 + cp div 0x40, 0x80 + cp mod 0x40]
      else if cp < 0x10000
        then [0xE0 + cp div 0x1000, 0x80 + cp div 0x40 mod 0x40, 0x80 + cp mod 0x40]
      else [0xF0 + cp div 0x40000, 0x80 + cp div 0x1000 mod 0x40,
            0x80 + cp div 0x40 mod 0x40, 0x80 + cp mod 0x40])"

definition percent_byte :: "nat \<Rightarrow> jsstring" where
  "percent_byte b =
     [0x25, ascii ''0123456789ABCDEF'' ! (b div 16), ascii ''0123456789ABCDEF'' ! (b mod 16)]"

definition percent_encode :: "nat \<Rightarrow> jsstring" where
  "percent_encode cp = concat (map percent_byte (utf8_bytes cp))"

fun encodeURIComponent :: "jsstring \<Rightarrow> js_error + jsstring" where
  "encodeURIComponent [] = Inr []"
| "encodeURIComponent [c] =
     (if uri_unreserved c then Inr [c]
      else if 0xD800 \<le> c \<and> c \<le> 0xDFFF then Inl URIError
      else Inr (percent_encode (unat c)))"
| "encodeURIComponent (c # d # cs) =
     (if uri_unreserved c then map_sum id (\<lambda>r. c # r) (encodeURIComponent (d # cs))
      else if 0xDC00 \<le> c \<and> c \<le> 0xDFFF then Inl URIError
      else if 0xD800 \<le> c \<and> c \<le> 0xDBFF then
        (if 0xDC00 \<le> d \<and> d \<le> 0xDFFF
         then map_sum id
                (\<lambda>r. percent_encode (0x10000 + (unat c - 0xD800) * 0x400 + (unat d - 0xDC00)) @ r)
                (encodeURIComponent cs)
         else Inl URIError)
      else map_sum id (\<lambda>r. percent_encode (unat c) @ r) (encodeURIComponent (d # cs)))"

text \<open>
  \<^verbatim>\<open>function wrapInLayout(content, title, description, url) {
    return layoutTemplate
      .replace(/\{\{PAGE_TITLE\}\}/g, title)
      .replace(/\{\{PAGE_DESCRIPTION\}\}/g, description)
      .replace(/\{\{PAGE_URL\}\}/g, url)
      .replace('{{CONTENT}}', content); }\<close>
\<close>

definition wrapInLayout ::
  "templates \<Rightarrow> jsstring \<Rightarrow> jsstring \<Rightarrow> jsstring \<Rightarrow> jsstring \<Rightarrow> jsstring" where
  "wrapInLayout t content title descr url =
     chain (layoutTemplate t)
       [js_replace_all (ascii ''{{PAGE_TITLE}}'') title,
        js_replace_all (ascii ''{{PAGE_DESCRIPTION}}'') descr,
        js_replace_all (ascii ''{{PAGE_URL}}'') url,
        js_replace (ascii ''{{CONTENT}}'') content]"

subsection \<open>The home page\<close>



subsection \<open>The neighborhood pages\<close>



subsection \<open>The hotel pages\<close>

text \<open>
  The body of the loop of \<open>generateHotelPages\<close>. The cards of the similar hotels are
  rendered before the chain of replacements, whose arguments are evaluated in order:
  the stars, then the booking URL.
\<close>

definition hotel_html :: "site_input \<Rightarrow> hotel \<Rightarrow> js_error + jsstring" where
  \<open>hotel_html inp hotel =
     (let amenitiesHtml = concat (map (\<lambda>a.
            concat
              [ascii ''<span class="amenity">'',
               a,
               ascii ''</span>''])
            (case amenities hotel of None \<Rightarrow> [] | Some xs \<Rightarrow> xs));
          prosHtml = concat (map (\<lambda>p.
            concat
              [ascii ''<li>'',
               p,
               ascii ''</li>''])
            (case pros hotel of
               None \<Rightarrow> [ascii ''Great location'', ascii ''Good value''] | Some xs \<Rightarrow> xs));
          consHtml = concat (map (\<lambda>p.
            concat
              [ascii ''<li>'',
               p,
               ascii ''</li>''])
            (case cons hotel of None \<Rightarrow> [ascii ''Book early''] | Some xs \<Rightarrow> xs));
          badges = page_badges hotel;
          bestForTags = concat (map (\<lambda>b.
            concat
              [ascii ''<span class="best-for-tag">'',
               b,
               ascii ''</span>''])
            (case bestFor hotel of None \<Rightarrow> [ascii ''Travelers''] | Some xs \<Rightarrow> xs))
      in
      result_bind
        (hotel_cards
           (take 3 (filter (\<lambda>h. neighborhood h = neighborhood hotel
                                  \<and> hotel_id h \<noteq> hotel_id hotel)
                      (hotels (allHotelsData inp)))))
        (\<lambda>similarHotels.
      result_bind (generateStars (starRating hotel))
        (\<lambda>stars.
      result_bind (encodeURIComponent (name hotel @ ascii '' Athens''))
        (\<lambda>encoded.
      Inr (wrapInLayout (tpl inp)
        (chain (hotelTemplate (tpl inp))
          [js_replace_all (ascii ''{{NAME}}'') (name hotel),
           js_replace_all (ascii ''{{NEIGHBORHOOD_ID}}'') (neighborhood hotel),
           js_replace_all (ascii ''{{NEIGHBORHOOD_NAME}}'')
             (js_or_str (neighborhoodName hotel) (neighborhood hotel)),
           js_replace (ascii ''{{STARS}}'') stars,
           js_replace (ascii ''{{STAR_RATING}}'') (js_int_str (starRating hotel)),
           js_replace (ascii ''{{BADGES}}'') (concat badges),
           js_replace_all (ascii ''{{PRICE}}'') (js_int_str (pricePerNight hotel)),
           js_replace (ascii ''{{PRICE_MIN}}'') (js_int_str (page_price_min (pricePerNight hotel))),
           js_replace (ascii ''{{PRICE_MAX}}'') (js_int_str (page_price_max (pricePerNight hotel))),
           js_replace (ascii ''{{OVERVIEW}}'')
             (js_or_str (overview hotel)
               (concat
                  [name hotel,
                   ascii '' is a '',
                   js_int_str (starRating hotel),
                   ascii ''-star hotel in '',
                   js_str_or_undefined (neighborhoodName hotel),
                   ascii '', Athens.''])),
           js_replace (ascii ''{{AMENITIES}}'') amenitiesHtml,
           js_replace (ascii ''{{PROS}}'') prosHtml,
           js_replace (ascii ''{{CONS}}'') consHtml,
           js_replace (ascii ''{{LOCATION_DESC}}'')
             (concat
                [distanceToAcropolis hotel,
                 ascii '' walk to the Acropolis.'']),
           js_replace (ascii ''{{DISTANCE_ACROPOLIS}}'') (distanceToAcropolis hotel),
           js_replace (ascii ''{{DISTANCE_METRO}}'') (ascii ''5-10 min''),
           js_replace (ascii ''{{HAS_VIEW}}'')
             (if hasAcropolisView hotel then ascii ''Yes '' @ [0x2713] else ascii ''No''),
           js_replace (ascii ''{{HAS_ROOFTOP}}'')
             (if hasRooftopBar hotel then ascii ''Yes '' @ [0x2713] else ascii ''No''),
           js_replace (ascii ''{{BEST_FOR_TAGS}}'') bestForTags,
           js_replace (ascii ''{{SIMILAR_HOTELS}}'') similarHotels,
           js_replace (ascii ''{{BOOKING_URL}}'')
             (concat
                [ascii ''https://www.booking.com/searchresults.html?ss='',
                 encoded])])
        (name hotel)
        (concat
           [name hotel,
            ascii '' - '',
            js_int_str (starRating hotel),
            ascii ''-star hotel in '',
            js_str_or_undefined (neighborhoodName hotel),
            ascii '', Athens. From '',
            [0x20AC],
            js_int_str (pricePerNight hotel),
            ascii ''/night. '',
            (if hasAcropolisView hotel then ascii ''Acropolis views available.'' else [])])
        (concat
           [ascii ''https://hotelsofathens.com/hotel/'',
            slug hotel]))))))\<close>

text \<open>
  \<^verbatim>\<open>fs.writeFileSync(path.join(distDir, 'hotel', `${hotel.slug}.html`), html);\<close>
  The name of a hotel's page is its slug and nothing else.
\<close>

definition hotel_page_path :: "hotel \<Rightarrow> jsstring" where
  "hotel_page_path hotel = ascii ''hotel/'' @ slug hotel @ ascii ''.html''"

definition generateHotelPages :: "site_input \<Rightarrow> step" where
  "generateHotelPages inp =
     run_all (map (\<lambda>hotel. write_page (hotel_page_path hotel) (hotel_html inp hotel))
               (hotels (allHotelsData inp)))"

subsection \<open>The contact and thank-you pages\<close>



subsection \<open>The guide pages\<close>





subsection \<open>The sitemap\<close>







subsection \<open>The fixed files and the whole run\<close>






section \<open>The data build: \<open>scripts/fetch-hotels.js\<close>\<close>

text \<open>
  \<open>toLowerCase\<close> as \<open>generateSlug\<close> uses it. ASCII capitals are mapped to small letters.
  Outside ASCII, U+0130 (capital I with dot above) becomes \<open>i\<close> and a combining dot, and
  U+212A (the Kelvin sign) becomes \<open>k\<close>: these are the only characters outside ASCII
  whose lower case has an ASCII character. Any other code unit is left as it is, where
  JavaScript maps the cased letters outside ASCII among themselves; \<open>generateSlug\<close>
  deletes every character outside ASCII that is not white space in its next step, and
  white space has no case, so the slug is the same.
\<close>

definition slug_toLowerCase :: "jsstring \<Rightarrow> jsstring" where
  "slug_toLowerCase s =
     concat (map (\<lambda>c. if 0x41 \<le> c \<and> c \<le> 0x5A then [c + 0x20]
                       else if c = 0x130 then [0x69, 0x307]
                       else if c = 0x212A then [0x6B]
                       else [c]) s)"

text \<open>
  \<^verbatim>\<open>function generateSlug(name) {
    return name.toLowerCase()
      .replace(/[^a-z0-9\s-]/g, '')
      .replace(/\s+/g, '-')
      .replace(/-+/g, '-')
      .trim() + '-athens'; }\<close>
\<close>

definition slug_char :: "16 word \<Rightarrow> bool" where
  "slug_char c \<longleftrightarrow>
     (0x61 \<le> c \<and> c \<le> 0x7A) \<or> (0x30 \<le> c \<and> c \<le> 0x39) \<or> js_whitespace c \<or> c = 0x2D"

definition generateSlug :: "jsstring \<Rightarrow> jsstring" where
  "generateSlug hotelName =
     trim (replace_runs (\<lambda>c. c = 0x2D) (ascii ''-'')
            (replace_runs js_whitespace (ascii ''-'')
              (filter slug_char (slug_toLowerCase hotelName))))
     @ ascii ''-athens''"

text \<open>
  An entry of \<open>getSeedHotels()\<close>, the curated hotels that \<open>main\<close> processes.
\<close>

record seed_hotel =
  seed_name :: jsstring
  seed_starRating :: int
  seed_pricePerNight :: int
  seed_hasAcropolisView :: bool
  seed_hasRooftopBar :: bool
  seed_rooftopRating :: int
  seed_amenities :: "jsstring list"
  seed_bestFor :: "jsstring list"
  seed_overview :: jsstring
  seed_pros :: "jsstring list"
  seed_cons :: "jsstring list"

text \<open>
  The \<open>processedHotels\<close> of \<open>main\<close>: a seed hotel with its id, its slug and the fields
  of its neighborhood.
  \<^verbatim>\<open>id: generateSlug(hotel.name).replace('-athens', '') + '-' + hood.id,
  slug: generateSlug(hotel.name),
  neighborhood: hood.id, neighborhoodName: hood.name,
  distanceToAcropolis: hood.walkToAcropolis, ..., ...hotel\<close>
  (\<open>lastVerified\<close> and \<open>isActive\<close> are written too; \<open>generate.js\<close> never reads them.)
\<close>

definition processHotel :: "neighborhood_rec \<Rightarrow> seed_hotel \<Rightarrow> hotel" where
  "processHotel hood hotel =
     \<lparr>hotel_id = js_replace (ascii ''-athens'') [] (generateSlug (seed_name hotel))
                   @ ascii ''-'' @ hood_id hood,
      slug = generateSlug (seed_name hotel),
      name = seed_name hotel,
      neighborhood = hood_id hood,
      neighborhoodName = Some (hood_name hood),
      starRating = seed_starRating hotel,
      pricePerNight = seed_pricePerNight hotel,
      hasAcropolisView = seed_hasAcropolisView hotel,
      hasRooftopBar = seed_hasRooftopBar hotel,
      rooftopRating = Some (seed_rooftopRating hotel),
      amenities = Some (seed_amenities hotel),
      pros = Some (seed_pros hotel),
      cons = Some (seed_cons hotel),
      bestFor = Some (seed_bestFor hotel),
      overview = Some (seed_overview hotel),
      distanceToAcropolis = walkToAcropolis hood\<rparr>"

text \<open>
  The loop of \<open>main\<close> over the neighborhoods, with its three accumulators: the files
  written so far (a later file of the same name replaces an earlier one), \<open>allHotels\<close>
  and \<open>totalHotels\<close>. \<open>seedHotels[hood.id] || []\<close>: a neighborhood without seed entry has
  no hotels.
\<close>

fun fetch_loop ::
  "(jsstring \<Rightarrow> seed_hotel list option) \<Rightarrow> neighborhood_rec list
    \<Rightarrow> (jsstring \<times> neighborhood_data) list \<times> hotel list \<times> int
    \<Rightarrow> (jsstring \<times> neighborhood_data) list \<times> hotel list \<times> int" where
  "fetch_loop seedHotels [] acc = acc"
| "fetch_loop seedHotels (hood # hoods) (files, allHotels, totalSoFar) =
     (let processedHotels =
            map (processHotel hood) (case seedHotels (hood_id hood) of None \<Rightarrow> [] | Some hs \<Rightarrow> hs);
          neighborhoodData =
            \<lparr>nd_hood = hood, hotelCount = int (length processedHotels),
             nd_hotels = processedHotels\<rparr>
      in fetch_loop seedHotels hoods
           (files @ [(hood_id hood, neighborhoodData)],
            allHotels @ processedHotels,
            totalSoFar + int (length processedHotels)))"

text \<open>
  The price statistics of \<open>main\<close>.
  \<^verbatim>\<open>const prices = allHotels.map(h => h.pricePerNight);
  const avgPrice = Math.round(prices.reduce((a, b) => a + b, 0) / prices.length);\<close>
  \<open>reduce\<close> adds from the left, each sum rounded to a double, and the quotient is
  rounded to a double before \<open>Math.round\<close> sees it. Without hotels the quotient is
  \<open>0 / 0\<close>, which is NaN.
\<close>

definition fetch_avgPrice :: "hotel list \<Rightarrow> int option" where
  "fetch_avgPrice allHotels =
     (let prices = map pricePerNight allHotels
      in map_option Math_round
           (js_div (foldl js_add (js_num 0) (map js_num prices)) (js_num (int (length prices)))))"

text \<open>
  \<^verbatim>\<open>budget:   allHotels.filter(h => h.pricePerNight < 80).length
  midRange: allHotels.filter(h => h.pricePerNight >= 80 && h.pricePerNight < 150).length
  upscale:  allHotels.filter(h => h.pricePerNight >= 150 && h.pricePerNight < 250).length
  luxury:   allHotels.filter(h => h.pricePerNight >= 250).length\<close>
\<close>

definition fetch_priceStats :: "hotel list \<Rightarrow> price_stats" where
  "fetch_priceStats allHotels =
     \<lparr>budget_count = int (length (filter (\<lambda>h. pricePerNight h < 80) allHotels)),
      midRange_count =
        int (length (filter (\<lambda>h. 80 \<le> pricePerNight h \<and> pricePerNight h < 150) allHotels)),
      upscale_count =
        int (length (filter (\<lambda>h. 150 \<le> pricePerNight h \<and> pricePerNight h < 250) allHotels)),
      luxury_count = int (length (filter (\<lambda>h. 250 \<le> pricePerNight h) allHotels))\<rparr>"

text \<open>
  \<open>main\<close> of \<open>fetch-hotels.js\<close>: the neighborhood files and the master file, from the
  seed hotels and the neighborhoods of \<open>data/neighborhoods.json\<close>.
\<close>

definition fetch_main ::
  "(jsstring \<Rightarrow> seed_hotel list option) \<Rightarrow> neighborhood_rec list
    \<Rightarrow> (jsstring \<times> neighborhood_data) list \<times> master_data" where
  "fetch_main seedHotels neighborhoods =
     (case fetch_loop seedHotels neighborhoods ([], [], 0) of
        (files, allHotels, totalSoFar) \<Rightarrow>
          (files,
           \<lparr>totalHotels = totalSoFar,
            avgPrice = fetch_avgPrice allHotels,
            priceStats = fetch_priceStats allHotels,
            hotels = allHotels\<rparr>))"

section \<open>Sample data\<close>

text \<open>
  The entries of \<open>getSeedHotels()\<close> for Plaka and Koukaki, and the two neighborhoods
  with the fields that \<open>main\<close> reads (\<open>data/neighborhoods.json\<close> is not among the
  sources; the other fields are left empty here).
\<close>

definition seed_plaka :: "seed_hotel list" where
  \<open>seed_plaka =
     [\<lparr>seed_name = ascii ''Electra Palace Athens'',
       seed_starRating = 5, seed_pricePerNight = 280,
       seed_hasAcropolisView = True, seed_hasRooftopBar = True, seed_rooftopRating = 5,
       seed_amenities = [ascii ''Pool'', ascii ''Spa'', ascii ''Restaurant'', ascii ''Gym''],
       seed_bestFor = [ascii ''Luxury'', ascii ''Couples'', ascii ''Views''],
       seed_overview =
         concat [ascii ''Iconic luxury hotel in the heart of Plaka with stunning rooftop '',
          ascii ''pool and Acropolis views. Neoclassical elegance meets modern '',
          ascii ''comfort.''],
       seed_pros = [ascii ''Rooftop pool with Acropolis view'', ascii ''Prime Plaka location'', ascii ''Excellent service''],
       seed_cons = [ascii ''Premium pricing'', ascii ''Can be busy'']\<rparr>,
      \<lparr>seed_name = ascii ''Plaka Hotel'',
       seed_starRating = 3, seed_pricePerNight = 95,
       seed_hasAcropolisView = True, seed_hasRooftopBar = False, seed_rooftopRating = 0,
       seed_amenities = [ascii ''Breakfast'', ascii ''WiFi'', ascii ''AC''],
       seed_bestFor = [ascii ''Budget'', ascii ''Location'', ascii ''Solo travelers''],
       seed_overview =
         concat [ascii ''Charming budget-friendly hotel in the heart of Plaka. Simple '',
          ascii ''rooms with great location and friendly staff.''],
       seed_pros = [ascii ''Unbeatable location'', ascii ''Great value'', ascii ''Rooftop terrace''],
       seed_cons = [ascii ''Basic rooms'', ascii ''No pool'']\<rparr>,
      \<lparr>seed_name = ascii ''AVA Hotel Athens'',
       seed_starRating = 4, seed_pricePerNight = 180,
       seed_hasAcropolisView = True, seed_hasRooftopBar = True, seed_rooftopRating = 4,
       seed_amenities = [ascii ''Restaurant'', ascii ''Bar'', ascii ''WiFi'', ascii ''Concierge''],
       seed_bestFor = [ascii ''Boutique'', ascii ''Couples'', ascii ''Design lovers''],
       seed_overview =
         concat [ascii ''Stylish boutique hotel with contemporary design and Acropolis '',
          ascii ''views. Perfect blend of comfort and aesthetics.''],
       seed_pros = [ascii ''Beautiful design'', ascii ''Great rooftop'', ascii ''Quiet location''],
       seed_cons = [ascii ''Small rooms'', ascii ''Limited amenities'']\<rparr>,
      \<lparr>seed_name = ascii ''Herodion Hotel'',
       seed_starRating = 4, seed_pricePerNight = 165,
       seed_hasAcropolisView = True, seed_hasRooftopBar = True, seed_rooftopRating = 4,
       seed_amenities = [ascii ''Restaurant'', ascii ''Bar'', ascii ''Garden'', ascii ''WiFi''],
       seed_bestFor = [ascii ''Families'', ascii ''Couples'', ascii ''History buffs''],
       seed_overview =
         concat [ascii ''Elegant hotel at the foot of the Acropolis with beautiful garden '',
          ascii ''and rooftop restaurant.''],
       seed_pros = [ascii ''Steps from Acropolis'', ascii ''Lovely garden'', ascii ''Family-friendly''],
       seed_cons = [ascii ''Dated decor in some rooms'']\<rparr>,
      \<lparr>seed_name = ascii ''Central Athens Hotel'',
       seed_starRating = 3, seed_pricePerNight = 85,
       seed_hasAcropolisView = False, seed_hasRooftopBar = False, seed_rooftopRating = 0,
       seed_amenities = [ascii ''Breakfast'', ascii ''WiFi'', ascii ''AC''],
       seed_bestFor = [ascii ''Budget'', ascii ''Solo travelers'', ascii ''Short stays''],
       seed_overview =
         concat [ascii ''Clean and comfortable budget option in central Plaka. No frills '',
          ascii ''but excellent value.''],
       seed_pros = [ascii ''Great price'', ascii ''Central location'', ascii ''Clean rooms''],
       seed_cons = [ascii ''Basic amenities'', ascii ''No views'']\<rparr>]\<close>

definition seed_koukaki :: "seed_hotel list" where
  \<open>seed_koukaki =
     [\<lparr>seed_name = ascii ''Herodion Hotel'',
       seed_starRating = 4, seed_pricePerNight = 155,
       seed_hasAcropolisView = True, seed_hasRooftopBar = True, seed_rooftopRating = 4,
       seed_amenities = [ascii ''Restaurant'', ascii ''Bar'', ascii ''Garden'', ascii ''WiFi''],
       seed_bestFor = [ascii ''Families'', ascii ''Quiet'', ascii ''Acropolis access''],
       seed_overview =
         concat [ascii ''Elegant hotel at the south slope of the Acropolis. Beautiful '',
          ascii ''garden and easy access to sites.''],
       seed_pros = [ascii ''Quiet location'', ascii ''Garden setting'', ascii ''Near Acropolis''],
       seed_cons = [ascii ''Uphill walk to center'']\<rparr>,
      \<lparr>seed_name = ascii ''Acropolis Hill Hotel'',
       seed_starRating = 3, seed_pricePerNight = 85,
       seed_hasAcropolisView = True, seed_hasRooftopBar = False, seed_rooftopRating = 0,
       seed_amenities = [ascii ''Breakfast'', ascii ''WiFi'', ascii ''AC'', ascii ''Terrace''],
       seed_bestFor = [ascii ''Budget'', ascii ''Views'', ascii ''Local area''],
       seed_overview =
         concat [ascii ''Great value hotel with Acropolis views in authentic Koukaki '',
          ascii ''neighborhood.''],
       seed_pros = [ascii ''Acropolis views'', ascii ''Local neighborhood'', ascii ''Great value''],
       seed_cons = [ascii ''Basic amenities'', ascii ''Uphill location'']\<rparr>,
      \<lparr>seed_name = ascii ''Marble House'',
       seed_starRating = 2, seed_pricePerNight = 55,
       seed_hasAcropolisView = False, seed_hasRooftopBar = False, seed_rooftopRating = 0,
       seed_amenities = [ascii ''Kitchen'', ascii ''WiFi'', ascii ''Garden''],
       seed_bestFor = [ascii ''Budget'', ascii ''Long stays'', ascii ''Self-catering''],
       seed_overview =
         concat [ascii ''Family-run pension with garden courtyard. Simple rooms but incredible '',
          ascii ''value and warm hospitality.''],
       seed_pros = [ascii ''Super affordable'', ascii ''Lovely garden'', ascii ''Friendly owners''],
       seed_cons = [ascii ''Very basic'', ascii ''Shared facilities'']\<rparr>,
      \<lparr>seed_name = ascii ''Philippos Hotel'',
       seed_starRating = 3, seed_pricePerNight = 95,
       seed_hasAcropolisView = True, seed_hasRooftopBar = False, seed_rooftopRating = 0,
       seed_amenities = [ascii ''Breakfast'', ascii ''WiFi'', ascii ''AC''],
       seed_bestFor = [ascii ''Mid-range'', ascii ''Quiet'', ascii ''Couples''],
       seed_overview =
         concat [ascii ''Comfortable hotel in quiet Koukaki with partial Acropolis views. '',
          ascii ''Good base for sightseeing.''],
       seed_pros = [ascii ''Quiet area'', ascii ''Good breakfast'', ascii ''Near metro''],
       seed_cons = [ascii ''Dated decor'', ascii ''No rooftop'']\<rparr>]\<close>


definition seed_two_hoods :: "jsstring \<Rightarrow> seed_hotel list option" where
  "seed_two_hoods = [ascii ''plaka'' \<mapsto> seed_plaka, ascii ''koukaki'' \<mapsto> seed_koukaki]"

definition hood_plaka :: neighborhood_rec where
  "hood_plaka =
     \<lparr>hood_id = ascii ''plaka'', hood_name = ascii ''Plaka'', emoji = [], tagline = [],
      description = [], hood_avgPrice = 0, walkToAcropolis = ascii ''5 min'', vibe = [],
      hood_bestFor = []\<rparr>"

definition hood_koukaki :: neighborhood_rec where
  "hood_koukaki =
     \<lparr>hood_id = ascii ''koukaki'', hood_name = ascii ''Koukaki'', emoji = [], tagline = [],
      description = [], hood_avgPrice = 0, walkToAcropolis = ascii ''10 min'', vibe = [],
      hood_bestFor = []\<rparr>"

text \<open>The master file that the data build writes for these two neighborhoods.\<close>

definition two_hoods_master :: master_data where
  "two_hoods_master = snd (fetch_main seed_two_hoods [hood_plaka, hood_koukaki])"

text \<open>
  Templates that show which hotel a hotel page is of: the layout is its content, and the
  hotel template is the identifier of the hotel's neighborhood. With them, the input
  that the site generator reads after the data build for the two neighborhoods.
\<close>

definition probe_templates :: templates where
  "probe_templates =
     \<lparr>layoutTemplate = ascii ''{{CONTENT}}'', homeTemplate = [],
      neighborhoodTemplate = [], hotelTemplate = ascii ''{{NEIGHBORHOOD_ID}}'',
      contactTemplate = [], thankYouTemplate = []\<rparr>"

definition two_hoods_input :: site_input where
  "two_hoods_input =
     \<lparr>tpl = probe_templates,
      allHotelsData = two_hoods_master,
      neighborhoodsData = [hood_plaka, hood_koukaki],
      hoodFiles = map_of (fst (fetch_main seed_two_hoods [hood_plaka, hood_koukaki])),
      env_FORMSPREE_ID = None,
      toLowerCase = slug_toLowerCase\<rparr>"



section \<open>Notions for the statements\<close>

text \<open>
  The arithmetic mean of a list of integers, rounded to the nearest integer (half up):
  what the specification says \<open>avgPrice\<close> is, in exact arithmetic.
\<close>

definition spec_rounded_mean :: "int list \<Rightarrow> int" where
  "spec_rounded_mean ps = \<lfloor>(of_int (sum_list ps) / of_int (int (length ps)) :: rat) + 1 / 2\<rfloor>"



section \<open>Price tiers\<close>

lemma tier_labels_distinct:
  "distinct [ascii ''budget'', ascii ''mid'', ascii ''upscale'', ascii ''luxury'']"
  by (simp add: ascii_def)

text \<open>
  Claim C1. For every integer price, \<open>getPriceTier\<close> returns one of the four labels
  (which are pairwise different, so exactly one), and the label is decided by the
  half-open intervals with bounds 80, 150 and 250: a price on a bound belongs to the
  tier above it. In particular 79 is budget, 80 and 149 are mid, 150 and 249 are
  upscale, 250 is luxury.
\<close>

theorem getPriceTier_tiers:
  "getPriceTier p \<in> set [ascii ''budget'', ascii ''mid'', ascii ''upscale'', ascii ''luxury'']
   \<and> (getPriceTier p = ascii ''budget'') = (p < 80)
   \<and> (getPriceTier p = ascii ''mid'') = (80 \<le> p \<and> p < 150)
   \<and> (getPriceTier p = ascii ''upscale'') = (150 \<le> p \<and> p < 250)
   \<and> (getPriceTier p = ascii ''luxury'') = (250 \<le> p)
   \<and> getPriceTier 79 = ascii ''budget''
   \<and> getPriceTier 80 = ascii ''mid''
   \<and> getPriceTier 149 = ascii ''mid''
   \<and> getPriceTier 150 = ascii ''upscale''
   \<and> getPriceTier 249 = ascii ''upscale''
   \<and> getPriceTier 250 = ascii ''luxury''"
  using tier_labels_distinct by (auto simp: getPriceTier_def)

section \<open>Star glyphs\<close>

lemma js_repeat_nonneg:
  "0 \<le> n \<Longrightarrow> js_repeat [c] n = Inr (replicate (nat n) c)"
  by (simp add: js_repeat_def)

text \<open>
  Claim C7. For an integer rating between 0 and 5, \<open>generateStars\<close> returns a string
  of 5 code units: the first \<open>rating\<close> are the filled star and the other
  \<open>5 - rating\<close> are the empty star.
\<close>

theorem generateStars_in_range:
  assumes "0 \<le> rating" and "rating \<le> 5"
  shows "\<exists>s. generateStars rating = Inr s
           \<and> length s = 5
           \<and> take (nat rating) s = replicate (nat rating) filled_star
           \<and> drop (nat rating) s = replicate (nat (5 - rating)) empty_star"
proof -
  from assms have a: "js_repeat [filled_star] rating = Inr (replicate (nat rating) filled_star)"
    by (simp add: js_repeat_nonneg)
  from assms have b:
    "js_repeat [empty_star] (5 - rating) = Inr (replicate (nat (5 - rating)) empty_star)"
    by (simp add: js_repeat_nonneg)
  have "generateStars rating =
          Inr (replicate (nat rating) filled_star @ replicate (nat (5 - rating)) empty_star)"
    by (simp add: generateStars_def a b)
  moreover from assms have "nat rating + nat (5 - rating) = 5"
    by simp
  ultimately show ?thesis
    by simp
qed

theorem generateStars_in_range_witness:
  "generateStars 3 = Inr [filled_star, filled_star, filled_star, empty_star, empty_star]"
proof -
  obtain s where s: "generateStars 3 = Inr s" "length s = 5"
    "take (nat 3) s = replicate (nat 3) filled_star"
    "drop (nat 3) s = replicate (nat (5 - 3)) empty_star"
    using generateStars_in_range [of 3] by auto
  have "s = take 3 s @ drop 3 s"
    by simp
  also have "\<dots> = [filled_star, filled_star, filled_star, empty_star, empty_star]"
    using s(3,4) by (simp add: numeral_3_eq_3 numeral_2_eq_2)
  finally show ?thesis
    using s(1) by simp
qed

text \<open>Outside the range the call throws, as \<open>repeat\<close> does on a negative count.\<close>

lemma generateStars_out_of_range:
  "rating < 0 \<or> 5 < rating \<Longrightarrow> generateStars rating = Inl RangeError"
  by (auto simp: generateStars_def js_repeat_def)

section \<open>Badges\<close>




section \<open>The highlight sections of the home page\<close>



section \<open>The guides\<close>










section \<open>Rounding to a double\<close>










section \<open>The price range\<close>








section \<open>The aggregate index\<close>



lemma spec_rounded_mean_nearest:
  "\<bar>of_int (spec_rounded_mean ps) - (of_int (sum_list ps) / of_int (int (length ps)) :: rat)\<bar>
     \<le> 1 / 2"
  unfolding spec_rounded_mean_def by (simp only: abs_le_iff) linarith










section \<open>Runs that end without exception\<close>

subsection \<open>Replacements that leave a text as it is\<close>

text \<open>Replacement texts without a dollar sign are taken as they are.\<close>

lemma get_substitution_plain:
  "0x24 \<notin> set r \<Longrightarrow> get_substitution m pre post r = r"
  by (induction m pre post r rule: get_substitution.induct) auto

text \<open>A text in which the first code unit of the pattern does not occur has no match.\<close>

lemma js_replace_from_absent:
  "c \<notin> set s \<Longrightarrow> js_replace_from (c # pat) repl pre s = pre @ s"
  by (induction s arbitrary: pre) auto

lemma js_replace_absent:
  "c \<notin> set s \<Longrightarrow> js_replace (c # pat) repl s = s"
  by (simp add: js_replace_def js_replace_from_absent)

lemma js_replace_all_from_absent:
  "c \<notin> set s \<Longrightarrow> js_replace_all_from (c # pat) repl pre s = s"
  by (induction s arbitrary: pre) auto

lemma js_replace_all_absent:
  "c \<notin> set s \<Longrightarrow> js_replace_all (c # pat) repl s = s"
  by (simp add: js_replace_all_def js_replace_all_from_absent)

lemma js_replace_all_whole:
  assumes "0x24 \<notin> set r" and "hd pat \<notin> set r" and "pat \<noteq> []"
  shows "js_replace_all pat r pat = r"
proof -
  obtain c cs where pat: "pat = c # cs"
    using assms(3) by (cases pat) auto
  have "js_replace_all_from pat r [] pat
      = get_substitution pat [] (drop (length pat) pat) r
        @ js_replace_all_from pat r ([] @ pat) (drop (length pat) pat)"
    unfolding pat by (subst js_replace_all_from.simps) simp
  then show ?thesis
    using assms(1) by (simp add: js_replace_all_def get_substitution_plain)
qed

lemma js_replace_whole:
  assumes "0x24 \<notin> set r" and "pat \<noteq> []"
  shows "js_replace pat r pat = r"
proof -
  obtain c cs where pat: "pat = c # cs"
    using assms(2) by (cases pat) auto
  show ?thesis
    using assms(1) unfolding pat js_replace_def by (simp add: get_substitution_plain)
qed

subsection \<open>Pages of hotels with a rating from 0 to 5\<close>

lemma generateStars_ok:
  "0 \<le> r \<Longrightarrow> r \<le> 5 \<Longrightarrow> \<exists>s. generateStars r = Inr s"
  by (simp add: generateStars_def js_repeat_def)

lemma map_result_ok:
  "\<forall>x \<in> set xs. \<exists>y. f x = Inr y \<Longrightarrow> \<exists>ys. map_result f xs = Inr ys"
  by (induction xs) auto

lemma hotel_cards_ok:
  assumes "\<forall>h \<in> set hs. 0 \<le> starRating h \<and> starRating h \<le> 5"
  shows "\<exists>c. hotel_cards hs = Inr c"
proof -
  have "\<forall>h \<in> set hs. \<exists>y. generateHotelCard h = Inr y"
  proof
    fix h assume "h \<in> set hs"
    with assms obtain s where "generateStars (starRating h) = Inr s"
      using generateStars_ok by blast
    then show "\<exists>y. generateHotelCard h = Inr y"
      by (simp add: generateHotelCard_def)
  qed
  then obtain ys where "map_result generateHotelCard hs = Inr ys"
    using map_result_ok by blast
  then show ?thesis
    by (simp add: hotel_cards_def)
qed

lemma encodeURIComponent_ok:
  "\<forall>c \<in> set s. c < 0xD800 \<Longrightarrow> \<exists>r. encodeURIComponent s = Inr r"
proof (induction s rule: encodeURIComponent.induct)
  case 1
  then show ?case by simp
next
  case (2 c)
  then show ?case by auto
next
  case (3 c d cs)
  from "3.prems" have c: "c < 0xD800" and rest: "\<forall>x \<in> set (d # cs). x < 0xD800"
    by simp_all
  from c have n1: "\<not> 0xDC00 \<le> c" and n2: "\<not> 0xD800 \<le> c"
    by (simp_all add: word_le_nat_alt word_less_nat_alt)
  show ?case
  proof (cases "uri_unreserved c")
    case True
    with "3.IH"(1) rest obtain r where "encodeURIComponent (d # cs) = Inr r"
      by blast
    with True show ?thesis by simp
  next
    case False
    with "3.IH"(3) n1 n2 rest obtain r where "encodeURIComponent (d # cs) = Inr r"
      by blast
    with False n1 n2 show ?thesis by simp
  qed
qed

lemma hotel_html_ok:
  assumes "\<forall>h \<in> set (hotels (allHotelsData inp)). 0 \<le> starRating h \<and> starRating h \<le> 5"
    and "0 \<le> starRating hotel" and "starRating hotel \<le> 5"
    and "\<forall>c \<in> set (name hotel). c < 0xD800"
  shows "\<exists>p. hotel_html inp hotel = Inr p"
proof -
  have "\<forall>h \<in> set (take 3 (filter (\<lambda>h. neighborhood h = neighborhood hotel
            \<and> hotel_id h \<noteq> hotel_id hotel) (hotels (allHotelsData inp)))).
          0 \<le> starRating h \<and> starRating h \<le> 5"
    using assms(1) by (auto dest: in_set_takeD)
  then obtain similar where 1: "hotel_cards (take 3 (filter (\<lambda>h. neighborhood h = neighborhood hotel
            \<and> hotel_id h \<noteq> hotel_id hotel) (hotels (allHotelsData inp)))) = Inr similar"
    using hotel_cards_ok by blast
  obtain stars where 2: "generateStars (starRating hotel) = Inr stars"
    using generateStars_ok assms(2,3) by blast
  have "\<forall>c \<in> set (name hotel @ ascii '' Athens''). c < 0xD800"
    using assms(4) by (auto simp: ascii_def)
  then obtain encoded where 3: "encodeURIComponent (name hotel @ ascii '' Athens'') = Inr encoded"
    using encodeURIComponent_ok by blast
  show ?thesis
    unfolding hotel_html_def Let_def 1 2 3 result_bind_def by simp
qed

lemma run_all_pages_ok:
  assumes "\<forall>x \<in> set xs. \<exists>p. html x = Inr p"
  shows "run_all (map (\<lambda>x. write_page (path x) (html x)) xs) fs
           = (None, foldl (\<lambda>m x. m(path x \<mapsto> projr (html x))) fs xs)"
  using assms
proof (induction xs arbitrary: fs)
  case Nil
  then show ?case by simp
next
  case (Cons x xs)
  from Cons.prems obtain p where p: "html x = Inr p"
    by auto
  have w: "write_page (path x) (html x) fs = (None, fs(path x \<mapsto> p))"
    by (simp add: p write_page_def writeFileSync_def)
  have pr: "projr (html x) = p"
    by (simp add: p)
  have "run_all (map (\<lambda>x. write_page (path x) (html x)) xs) (fs(path x \<mapsto> p))
          = (None, foldl (\<lambda>m x. m(path x \<mapsto> projr (html x))) (fs(path x \<mapsto> p)) xs)"
    using Cons.prems by (intro Cons.IH) simp
  then show ?case
    by (simp only: list.map run_all.simps foldl.simps w pr prod.case option.case)
qed








subsection \<open>The sample data\<close>

lemma two_hoods_hotels:
  "hotels two_hoods_master
     = map (processHotel hood_plaka) seed_plaka @ map (processHotel hood_koukaki) seed_koukaki"
proof -
  have ne: "ascii ''koukaki'' \<noteq> ascii ''plaka''"
    by (simp add: ascii_def)
  show ?thesis
    using ne
    by (simp add: two_hoods_master_def fetch_main_def seed_two_hoods_def hood_plaka_def
        hood_koukaki_def Let_def)
qed

lemma two_hoods_names:
  "map name (hotels two_hoods_master)
     = [ascii ''Electra Palace Athens'', ascii ''Plaka Hotel'', ascii ''AVA Hotel Athens'',
        ascii ''Herodion Hotel'', ascii ''Central Athens Hotel'', ascii ''Herodion Hotel'',
        ascii ''Acropolis Hill Hotel'', ascii ''Marble House'', ascii ''Philippos Hotel'']"
  by (simp add: two_hoods_hotels seed_plaka_def seed_koukaki_def processHotel_def)

lemma seed_slugs:
  "generateSlug (ascii ''Herodion Hotel'') = ascii ''herodion-hotel-athens''"
  "generateSlug (ascii ''Acropolis Hill Hotel'') = ascii ''acropolis-hill-hotel-athens''"
  "generateSlug (ascii ''Marble House'') = ascii ''marble-house-athens''"
  "generateSlug (ascii ''Philippos Hotel'') = ascii ''philippos-hotel-athens''"
  by code_simp+

lemma seed_slugs_plaka:
  "generateSlug (ascii ''Electra Palace Athens'') = ascii ''electra-palace-athens-athens''"
  "generateSlug (ascii ''Plaka Hotel'') = ascii ''plaka-hotel-athens''"
  "generateSlug (ascii ''AVA Hotel Athens'') = ascii ''ava-hotel-athens-athens''"
  "generateSlug (ascii ''Central Athens Hotel'') = ascii ''central-athens-hotel-athens''"
  by code_simp+

lemma two_hoods_slugs:
  "map slug (hotels two_hoods_master)
     = [ascii ''electra-palace-athens-athens'', ascii ''plaka-hotel-athens'',
        ascii ''ava-hotel-athens-athens'', ascii ''herodion-hotel-athens'',
        ascii ''central-athens-hotel-athens'', ascii ''herodion-hotel-athens'',
        ascii ''acropolis-hill-hotel-athens'', ascii ''marble-house-athens'',
        ascii ''philippos-hotel-athens'']"
proof -
  have "map slug (hotels two_hoods_master) = map generateSlug (map name (hotels two_hoods_master))"
    by (simp add: two_hoods_hotels processHotel_def comp_def)
  then show ?thesis
    unfolding two_hoods_names by (simp add: seed_slugs seed_slugs_plaka)
qed

lemma two_hoods_ratings:
  "map starRating (hotels two_hoods_master) = [5, 3, 4, 4, 3, 4, 3, 2, 3]"
  by (simp add: two_hoods_hotels seed_plaka_def seed_koukaki_def processHotel_def)

lemma two_hoods_neighborhoods:
  "map neighborhood (hotels two_hoods_master)
     = [ascii ''plaka'', ascii ''plaka'', ascii ''plaka'', ascii ''plaka'', ascii ''plaka'',
        ascii ''koukaki'', ascii ''koukaki'', ascii ''koukaki'', ascii ''koukaki'']"
  by (simp add: two_hoods_hotels seed_plaka_def seed_koukaki_def processHotel_def
      hood_plaka_def hood_koukaki_def)

lemma two_hoods_length: "length (hotels two_hoods_master) = 9"
  using arg_cong [OF two_hoods_ratings, of length] by simp

lemma two_hoods_list:
  "hotels two_hoods_master = map ((!) (hotels two_hoods_master)) [0, 1, 2, 3, 4, 5, 6, 7, 8]"
proof -
  have "[0 ..< 9] = [0, 1, 2, 3, 4, 5, 6, 7, 8 :: nat]"
    by (simp add: upt_rec)
  then show ?thesis
    using map_nth [of "hotels two_hoods_master"] by (simp add: two_hoods_length)
qed

lemma two_hoods_renderable:
  assumes "h \<in> set (hotels two_hoods_master)"
  shows "0 \<le> starRating h \<and> starRating h \<le> 5" and "\<forall>c \<in> set (name h). c < 0xD800"
proof -
  from assms have "starRating h \<in> set (map starRating (hotels two_hoods_master))"
    by simp
  then show "0 \<le> starRating h \<and> starRating h \<le> 5"
    unfolding two_hoods_ratings by auto
  from assms have "name h \<in> set (map name (hotels two_hoods_master))"
    by simp
  then show "\<forall>c \<in> set (name h). c < 0xD800"
    unfolding two_hoods_names by (auto simp: ascii_def)
qed



lemma probe_layout:
  assumes "0x24 \<notin> set content"
  shows "wrapInLayout probe_templates content title descr url = content"
proof -
  have 1: "js_replace_all (ascii ''{{PAGE_TITLE}}'') title (ascii ''{{CONTENT}}'')
      = ascii ''{{CONTENT}}''"
    by code_simp
  have 2: "js_replace_all (ascii ''{{PAGE_DESCRIPTION}}'') descr (ascii ''{{CONTENT}}'')
      = ascii ''{{CONTENT}}''"
    by code_simp
  have 3: "js_replace_all (ascii ''{{PAGE_URL}}'') url (ascii ''{{CONTENT}}'')
      = ascii ''{{CONTENT}}''"
    by code_simp
  have 4: "js_replace (ascii ''{{CONTENT}}'') content (ascii ''{{CONTENT}}'') = content"
    using assms by (intro js_replace_whole) (simp_all add: ascii_def)
  show ?thesis
    by (simp add: wrapInLayout_def chain_def probe_templates_def 1 2 3 4)
qed

lemma probe_hotel_page:
  assumes "hotel_html inp hotel = Inr page" and "tpl inp = probe_templates"
    and "0x24 \<notin> set (neighborhood hotel)" and "0x7B \<notin> set (neighborhood hotel)"
  shows "page = neighborhood hotel"
proof -
  have 1: "js_replace_all (ascii ''{{NAME}}'') x (ascii ''{{NEIGHBORHOOD_ID}}'')
      = ascii ''{{NEIGHBORHOOD_ID}}''" for x
    by code_simp
  have 2: "js_replace_all (ascii ''{{NEIGHBORHOOD_ID}}'') (neighborhood hotel)
      (ascii ''{{NEIGHBORHOOD_ID}}'') = neighborhood hotel"
    using assms(3,4) by (intro js_replace_all_whole) (simp_all add: ascii_def)
  have 3: "js_replace (ascii (CHR ''{'' # pat)) x (neighborhood hotel) = neighborhood hotel"
    "js_replace_all (ascii (CHR ''{'' # pat)) x (neighborhood hotel) = neighborhood hotel"
    for pat x
    using assms(4) by (simp_all add: ascii_def js_replace_absent js_replace_all_absent)
  have 4: "hotelTemplate probe_templates = ascii ''{{NEIGHBORHOOD_ID}}''"
    by (simp add: probe_templates_def)
  from assms(1) show ?thesis
    unfolding hotel_html_def Let_def result_bind_def assms(2)
    by (simp add: chain_def 1 2 3 4 probe_layout [OF assms(3)] split: sum.splits)
qed
section \<open>Steps that only write\<close>














section \<open>The sitemap\<close>








section \<open>Running the pipeline twice\<close>







section \<open>Hotels that share a slug\<close>

text \<open>
  With the master file of the two neighborhoods, the page that \<open>generateHotelPages\<close>
  leaves at \<open>hotel/herodion-hotel-athens.html\<close> is the page of the sixth hotel.
\<close>

lemma herodion_file:
  assumes "allHotelsData inp = two_hoods_master"
  shows "fst (generateHotelPages inp fs) = None"
    and "\<exists>page. hotel_html inp (hotels two_hoods_master ! 5) = Inr page
        \<and> snd (generateHotelPages inp fs) (ascii ''hotel/herodion-hotel-athens.html'')
            = Some page"
proof -
  define hs where "hs = hotels two_hoods_master"
  have hs: "hotels (allHotelsData inp) = hs"
    by (simp add: assms hs_def)
  have slug: "slug (hs ! i) = map slug hs ! i" if "i < 9" for i
    using that by (simp add: hs_def two_hoods_length)
  have ok: "\<exists>p. hotel_html inp h = Inr p" if "h \<in> set hs" for h
  proof (rule hotel_html_ok)
    show "\<forall>h \<in> set (hotels (allHotelsData inp)). 0 \<le> starRating h \<and> starRating h \<le> 5"
      unfolding hs using two_hoods_renderable(1) by (simp add: hs_def)
    show "0 \<le> starRating h" "starRating h \<le> 5" "\<forall>c \<in> set (name h). c < 0xD800"
      using two_hoods_renderable [of h] that by (simp_all add: hs_def)
  qed
  then have run: "generateHotelPages inp fs
      = (None, foldl (\<lambda>m x. m(hotel_page_path x \<mapsto> projr (hotel_html inp x))) fs hs)"
    unfolding generateHotelPages_def hs by (intro run_all_pages_ok) simp
  then show "fst (generateHotelPages inp fs) = None"
    by simp
  have "hs ! 5 \<in> set hs"
    by (simp add: hs_def two_hoods_length)
  then obtain page where page: "hotel_html inp (hs ! 5) = Inr page"
    using ok by blast
  have list: "hs = map ((!) hs) [0, 1, 2, 3, 4, 5, 6, 7, 8]"
    unfolding hs_def by (rule two_hoods_list)
  have "foldl (\<lambda>m x. m(hotel_page_path x \<mapsto> projr (hotel_html inp x))) fs hs
          (ascii ''hotel/herodion-hotel-athens.html'') = Some page"
    by (subst list)
      (simp add: hotel_page_path_def slug page two_hoods_slugs [folded hs_def] ascii_def)
  with run page show "\<exists>page. hotel_html inp (hotels two_hoods_master ! 5) = Inr page
        \<and> snd (generateHotelPages inp fs) (ascii ''hotel/herodion-hotel-athens.html'')
            = Some page"
    unfolding hs_def [symmetric] by simp
qed

text \<open>
  Claim C2 does not hold of the code. The seed data has a hotel named Herodion Hotel in
  Plaka and another in Koukaki; \<open>generateSlug\<close> gives both the slug
  \<open>herodion-hotel-athens\<close>. \<open>generateHotelPages\<close> takes the master file with the two
  hotels without complaint (it ends without exception, whatever the templates and the
  files present), and \<open>hotel/herodion-hotel-athens.html\<close> ends up holding the page of the
  hotel in Koukaki: the page of the hotel in Plaka, written first, is replaced. With the
  sample templates the page of the hotel in Plaka reads \<open>plaka\<close>, and the file reads
  \<open>koukaki\<close>.
\<close>

theorem duplicate_slug_overwrites:
  "slug (hotels two_hoods_master ! 3) = ascii ''herodion-hotel-athens''
   \<and> slug (hotels two_hoods_master ! 5) = ascii ''herodion-hotel-athens''
   \<and> neighborhood (hotels two_hoods_master ! 3) = ascii ''plaka''
   \<and> neighborhood (hotels two_hoods_master ! 5) = ascii ''koukaki''
   \<and> fst (generateHotelPages (inp\<lparr>allHotelsData := two_hoods_master\<rparr>) fs) = None
   \<and> (\<exists>page. hotel_html (inp\<lparr>allHotelsData := two_hoods_master\<rparr>) (hotels two_hoods_master ! 5)
                = Inr page
        \<and> snd (generateHotelPages (inp\<lparr>allHotelsData := two_hoods_master\<rparr>) fs)
             (ascii ''hotel/herodion-hotel-athens.html'') = Some page)
   \<and> hotel_html two_hoods_input (hotels two_hoods_master ! 3) = Inr (ascii ''plaka'')
   \<and> snd (generateHotelPages two_hoods_input fs) (ascii ''hotel/herodion-hotel-athens.html'')
       = Some (ascii ''koukaki'')"
proof -
  define hs where "hs = hotels two_hoods_master"
  have slug: "slug (hs ! i) = map slug hs ! i" if "i < 9" for i
    using that by (simp add: hs_def two_hoods_length)
  have hood: "neighborhood (hs ! i) = map neighborhood hs ! i" if "i < 9" for i
    using that by (simp add: hs_def two_hoods_length)
  have slugs: "slug (hs ! 3) = ascii ''herodion-hotel-athens''"
    "slug (hs ! 5) = ascii ''herodion-hotel-athens''"
    by (simp_all add: slug two_hoods_slugs [folded hs_def])
  have hoods: "neighborhood (hs ! 3) = ascii ''plaka''"
    "neighborhood (hs ! 5) = ascii ''koukaki''"
    by (simp_all add: hood two_hoods_neighborhoods [folded hs_def])
  have plain: "0x24 \<notin> set (neighborhood (hs ! i))" "0x7B \<notin> set (neighborhood (hs ! i))"
    if "i = 3 \<or> i = 5" for i
    using that hoods by (auto simp: ascii_def)
  have inp: "allHotelsData two_hoods_input = two_hoods_master" "tpl two_hoods_input = probe_templates"
    by (simp_all add: two_hoods_input_def)
  have "hs ! 3 \<in> set hs"
    by (simp add: hs_def two_hoods_length)
  then have "\<exists>p. hotel_html two_hoods_input (hs ! 3) = Inr p"
    using two_hoods_renderable [of "hs ! 3"] two_hoods_renderable(1)
    by (intro hotel_html_ok) (simp_all add: hs_def inp)
  then obtain p3 where p3: "hotel_html two_hoods_input (hs ! 3) = Inr p3"
    by blast
  have 3: "hotel_html two_hoods_input (hs ! 3) = Inr (ascii ''plaka'')"
    using probe_hotel_page [OF p3 inp(2) plain [of 3]] p3 hoods by simp
  obtain p5 where p5: "hotel_html two_hoods_input (hs ! 5) = Inr p5"
    and f5: "snd (generateHotelPages two_hoods_input fs)
        (ascii ''hotel/herodion-hotel-athens.html'') = Some p5"
    using herodion_file(2) [OF inp(1), of fs] unfolding hs_def by blast
  have 5: "snd (generateHotelPages two_hoods_input fs)
      (ascii ''hotel/herodion-hotel-athens.html'') = Some (ascii ''koukaki'')"
    using probe_hotel_page [OF p5 inp(2) plain [of 5]] f5 hoods by simp
  have gen: "allHotelsData (inp\<lparr>allHotelsData := two_hoods_master\<rparr>) = two_hoods_master"
    by simp
  show ?thesis
    using slugs hoods 3 5 herodion_file [OF gen, of fs]
    unfolding hs_def by blast
qed

end
